theory Spec2Isabelle
  imports Main "HOL-Library.Word"
begin

section \<open>Documents (elasticsearch.go, main.go)\<close>

text \<open>
  A Go \<open>error\<close> value is modelled by its message; \<open>None\<close> of type \<open>error option\<close> is the
  nil error.
\<close>

type_synonym error = string

text \<open>
  The values \<open>encoding/json\<close> stores in an \<open>interface{}\<close>. Numbers keep their literal text.
\<close>

datatype json =
    JNull
  | JBool bool
  | JNumber string
  | JString string
  | JArray "json list"
  | JObject "(string \<times> json) list"

text \<open>\<open>type payload map[string]interface{}\<close>\<close>

type_synonym payload = "string \<rightharpoonup> json"

definition rawMsgKey :: string where
  "rawMsgKey = ''@raw_msg''"

definition timestampKey :: string where
  "timestampKey = ''@timestamp''"

definition sourceKey :: string where
  "sourceKey = ''@source''"

text \<open>
  \<open>newPayload(msg, source)\<close>. The third argument is the value of
  \<open>time.Now().Format(time.RFC3339)\<close> at the call.
\<close>

definition newPayload :: "string \<Rightarrow> string \<Rightarrow> string \<Rightarrow> payload" where
  "newPayload msg source now =
     Map.empty(rawMsgKey \<mapsto> JString msg, sourceKey \<mapsto> JString source, timestampKey \<mapsto> JString now)"

text \<open>
  The parser of the standard library is a parameter: a \<open>decoder\<close> gives the JSON value that
  the bytes denote, or \<open>None\<close> when they are not valid JSON.
\<close>

type_synonym decoder = "string \<Rightarrow> json option"

text \<open>
  \<open>json.Unmarshal(data, payload)\<close> on a non-nil map, after the documentation of
  \<open>encoding/json\<close>: the input is checked as a whole before anything is stored; \<open>null\<close> is
  accepted and stores nothing; an object stores each of its members under its key, in order,
  keeping the entries the map already has; every other value is an
  \<open>UnmarshalTypeError\<close> and stores nothing.
\<close>

definition json_Unmarshal :: "decoder \<Rightarrow> string \<Rightarrow> payload \<Rightarrow> payload \<times> error option" where
  "json_Unmarshal parse data p =
     (case parse data of
        None \<Rightarrow> (p, Some ''invalid character'')
      | Some JNull \<Rightarrow> (p, None)
      | Some (JObject kvs) \<Rightarrow> (foldl (\<lambda>m (k, v). m(k \<mapsto> v)) p kvs, None)
      | Some _ \<Rightarrow> (p, Some ''json: cannot unmarshal into Go value of type main.payload''))"

section \<open>Topic consumer (main.go)\<close>

text \<open>\<open>nats.Msg\<close>, with the two fields the program reads.\<close>

record Msg =
  Subject :: string
  Data :: string

definition ErrTimeout :: error where
  "ErrTimeout = ''nats: timeout''"

text \<open>
  The body of the goroutine that \<open>consumeForever\<close> starts in each iteration. It closes over
  \<open>m\<close>, a \<open>*nats.Msg\<close> that may be nil; reading \<open>m.Data\<close> through a nil pointer panics. The
  result is the panic, or the document sent on \<open>toSend\<close>. The error of \<open>json.Unmarshal\<close>
  is dropped (\<open>_ =\<close>).
\<close>

definition document_of :: "decoder \<Rightarrow> string \<Rightarrow> Msg \<Rightarrow> payload" where
  "document_of parse now m =
     (let payload = newPayload (Data m) (Subject m) now
      in fst (json_Unmarshal parse (Data m) payload))"

definition nil_dereference :: error where
  "nil_dereference = ''runtime error: invalid memory address or nil pointer dereference''"

definition consume_goroutine :: "decoder \<Rightarrow> string \<Rightarrow> Msg option \<Rightarrow> error + payload" where
  "consume_goroutine parse now m =
     (case m of
        None \<Rightarrow> Inl nil_dereference
      | Some msg \<Rightarrow> Inr (document_of parse now msg))"

text \<open>
  \<open>consumeForever\<close> over the results of its successive \<open>sub.NextMsg\<close> calls, each a pair
  \<open>(m, err)\<close>. The second argument collects the \<open>m\<close> of every goroutine started so far.
  \<open>Receiving\<close>: the loop is at its next \<open>NextMsg\<close> call; \<open>Returned\<close>: it has returned the
  error.
\<close>

datatype consumer =
    Receiving "Msg option list"
  | Returned error "Msg option list"

fun consumeForever :: "(Msg option \<times> error option) list \<Rightarrow> Msg option list \<Rightarrow> consumer" where
  "consumeForever [] started = Receiving started"
| "consumeForever ((m, err) # rest) started =
     (case err of
        Some e \<Rightarrow>
          (if e \<noteq> ErrTimeout then Returned e started
           else consumeForever rest (started @ [m]))
      | None \<Rightarrow> consumeForever rest (started @ [m]))"

text \<open>The decoder that knows the two bodies of the scenarios below and nothing else.\<close>

definition scenario_decoder :: decoder where
  \<open>scenario_decoder data =
     (if data = ''{"user":"a","raw_message":"x"}''
      then Some (JObject [(''user'', JString ''a''), (''raw_message'', JString ''x'')])
      else if data = ''{"user":"a","@raw_msg":"x"}''
      then Some (JObject [(''user'', JString ''a''), (''@raw_msg'', JString ''x'')])
      else None)\<close>

section \<open>Backend connections (elasticsearch.go)\<close>

record elasticConfig =
  Index :: string
  Hosts :: "string list"
  Port :: int
  Trace :: bool
  ReconnectAttempts :: int
  RetrySeconds :: int
  BatchSize :: int
  BatchTimeoutSec :: int

text \<open>\<open>type counters struct { natsConsumed int64; esSent int64 }\<close>\<close>

record counters =
  natsConsumed :: "64 word"
  esSent :: "64 word"

text \<open>
  \<open>elastigo.Conn\<close>: the fields \<open>connectToES\<close> sets, and \<open>conn_id\<close>, the identity of the
  object that \<open>elastigo.NewConn()\<close> allocated.
\<close>

record Conn =
  conn_id :: nat
  ConnPort :: string
  ConnHosts :: "string list"
  RequestTracer :: bool

text \<open>
  What the program does to the outside, in order. A log line is its level, its message or
  format string, and its numeric arguments. \<open>Sleep\<close> is a pause of so many seconds; no
  function of the program makes one, it is there for the behaviour the specification words
  describe.
\<close>

datatype level = Debug | Info | Warn | Fatal

datatype effect =
    Log level string "int list"
  | NewConn nat
  | NewBulkIndexer nat
  | IndexerStart nat
  | IndexCall nat string payload
  | IndexerFlush nat
  | IndexerStop nat
  | Sleep int
  | Exit

record world =
  stats :: counters
  conns :: nat
  effects :: "effect list"

definition emit :: "effect \<Rightarrow> world \<Rightarrow> world" where
  "emit e w = w\<lparr>effects := effects w @ [e]\<rparr>"

text \<open>A call either returns, or ends the process (\<open>log.Fatal\<close>, \<open>log.Fatalf\<close>).\<close>

datatype 'a outcome = Return 'a | ProcessExit

text \<open>\<open>fmt.Sprintf("%d", n)\<close>\<close>

fun decimal :: "nat \<Rightarrow> string" where
  "decimal n =
     (if n < 10 then [''0123456789'' ! n]
      else decimal (n div 10) @ [''0123456789'' ! (n mod 10)])"

definition Sprintf_d :: "int \<Rightarrow> string" where
  "Sprintf_d n = (if n < 0 then CHR ''-'' # decimal (nat (- n)) else decimal (nat n))"

text \<open>\<open>elastigo.NewConn()\<close>: a fresh connection object with the library's defaults.\<close>

definition elastigo_NewConn :: "world \<Rightarrow> Conn \<times> world" where
  "elastigo_NewConn w =
     (\<lparr>conn_id = conns w, ConnPort = ''9200'', ConnHosts = [], RequestTracer = False\<rparr>,
      emit (NewConn (conns w)) (w\<lparr>conns := Suc (conns w)\<rparr>))"

definition connectToES :: "elasticConfig \<Rightarrow> world \<Rightarrow> (Conn \<times> error option) \<times> world" where
  "connectToES config w =
     (case elastigo_NewConn (emit (Log Info ''Connecting to elastic search'' []) w) of
        (conn, w') \<Rightarrow>
          (let conn = (if Port config > 0 then conn\<lparr>ConnPort := Sprintf_d (Port config)\<rparr> else conn);
               conn = (if Trace config then conn\<lparr>RequestTracer := True\<rparr> else conn);
               conn = conn\<lparr>ConnHosts := Hosts config\<rparr>
           in ((conn, None), w')))"

text \<open>
  The callers of \<open>connectToES\<close> test its error. To follow them where it is not nil, they are
  written over the function they call, a \<open>connector\<close>; \<open>connect_or_fail dial\<close> is
  \<open>connectToES\<close> with the error replaced by what \<open>dial\<close> gives for that connection.
\<close>

type_synonym connector = "elasticConfig \<Rightarrow> world \<Rightarrow> (Conn \<times> error option) \<times> world"


text \<open>
  The loop of \<open>reconnect\<close>, from a value \<open>tms\<close> of its variable \<open>times\<close>, which stays below
  \<open>ReconnectAttempts\<close>, an \<open>int\<close> of the machine, so \<open>times++\<close> never wraps.
\<close>

function reconnect_loop :: "connector \<Rightarrow> elasticConfig \<Rightarrow> int \<Rightarrow> world \<Rightarrow> Conn outcome \<times> world" where
  "reconnect_loop connect config tms w =
     (if tms < ReconnectAttempts config then
        (case connect config
                (emit (Log Debug ''reconnecting attempt %d/%d'' [tms + 1, ReconnectAttempts config]) w) of
           ((client, err), w') \<Rightarrow>
             (if err = None
              then (Return client, emit (Log Info ''Reconnected after %d attempts'' [tms + 1]) w')
              else reconnect_loop connect config (tms + 1)
                     (emit (Log Warn ''Failed to reconnect attempt %d'' [tms + 1]) w')))
      else (ProcessExit,
            emit Exit
              (emit (Log Fatal ''Failed to reconnect to elasticsearch after %d attempts''
                       [ReconnectAttempts config]) w)))"
  by pat_completeness auto
termination
  by (relation "measure (\<lambda>(connect, config, tms, w). nat (ReconnectAttempts config - tms))") auto

definition reconnect_with :: "connector \<Rightarrow> elasticConfig \<Rightarrow> world \<Rightarrow> Conn outcome \<times> world" where
  "reconnect_with connect config w = reconnect_loop connect config 0 w"

definition reconnect :: "elasticConfig \<Rightarrow> world \<Rightarrow> Conn outcome \<times> world" where
  "reconnect config w = reconnect_with connectToES config w"

section \<open>Bulk dispatcher (elasticsearch.go)\<close>

text \<open>
  \<open>elastigo.BulkIndexer\<close>: the connection it was made from, and the two arguments of
  \<open>NewBulkIndexerErrors\<close>.
\<close>

record BulkIndexer =
  via :: Conn
  maxConns :: int
  retrySeconds :: int

text \<open>The two local variables of \<open>sendToES\<close> that its loop reads and writes.\<close>

record session =
  client :: Conn
  indexer :: BulkIndexer

datatype status = Done | Exited | Pending

definition incr_esSent :: "world \<Rightarrow> world" where
  "incr_esSent w = w\<lparr>stats := (stats w)\<lparr>esSent := esSent (stats w) + 1\<rparr>\<rparr>"

text \<open>
  The loop \<open>for resend { ... }\<close> for one document. The results of the successive
  \<open>indexer.Index\<close> calls come from outside, as a list (\<open>True\<close>: the error is nil); each
  iteration takes one. \<open>Pending\<close>: the list ended while the loop was still resending.
\<close>

fun resend_loop ::
  "connector \<Rightarrow> elasticConfig \<Rightarrow> payload \<Rightarrow> bool list \<Rightarrow> session \<Rightarrow> world
     \<Rightarrow> status \<times> bool list \<times> session \<times> world" where
  "resend_loop connect config payload [] s w = (Pending, [], s, w)"
| "resend_loop connect config payload (ok # results) s w =
     (let w1 = emit (IndexCall (conn_id (via (indexer s))) (Index config) payload)
                 (emit (Log Debug ''Sending to ES: %s'' []) w)
      in if \<not> ok then
           (case reconnect_with connect config
                   (emit (Log Warn ''Error sending data to elasticsearch -- retrying'' []) w1) of
              (ProcessExit, w2) \<Rightarrow> (Exited, results, s, w2)
            | (Return c, w2) \<Rightarrow> resend_loop connect config payload results (s\<lparr>client := c\<rparr>) w2)
         else (Done, results, s, incr_esSent (emit (Log Debug ''Sent'' []) w1)))"

text \<open>The loop \<open>for _, in := range batch\<close>.\<close>

fun range_batch ::
  "connector \<Rightarrow> elasticConfig \<Rightarrow> payload list \<Rightarrow> bool list \<Rightarrow> session \<Rightarrow> world
     \<Rightarrow> status \<times> bool list \<times> session \<times> world" where
  "range_batch connect config [] results s w = (Done, results, s, w)"
| "range_batch connect config (doc # batch) results s w =
     (case resend_loop connect config doc results s w of
        (Done, results', s', w') \<Rightarrow> range_batch connect config batch results' s' w'
      | r \<Rightarrow> r)"

text \<open>
  \<open>sendToES\<close> up to its loop: \<open>Return None\<close> when it returns at once, \<open>Return (Some s)\<close>
  when the indexer is started and the loop begins. The goroutine \<open>logErrors\<close>, which only
  logs what the indexer reports, is left out, and so are the fields added to the logger.
\<close>

definition sendToES_begin ::
  "connector \<Rightarrow> elasticConfig \<Rightarrow> payload list \<Rightarrow> world \<Rightarrow> session option outcome \<times> world" where
  "sendToES_begin connect config batch w =
     (if length batch = 0 then (Return None, w)
      else
        (case connect config w of
           ((c, Some err), w1) \<Rightarrow>
             (ProcessExit, emit Exit (emit (Log Fatal ''Failed to connect to elasticsearch'' []) w1))
         | ((c, None), w1) \<Rightarrow>
             (let ix = \<lparr>via = c, maxConns = 3, retrySeconds = RetrySeconds config\<rparr>;
                  w2 = emit (NewBulkIndexer (conn_id c)) (emit (Log Debug ''Connected to elasticseach'' []) w1);
                  w3 = emit (IndexerStart (conn_id c)) (emit (Log Debug ''Started indexer'' []) w2)
              in (Return (Some \<lparr>client = c, indexer = ix\<rparr>), w3))))"

text \<open>The deferred function of \<open>sendToES\<close>.\<close>

definition sendToES_deferred :: "session \<Rightarrow> world \<Rightarrow> world" where
  "sendToES_deferred s w =
     emit (IndexerStop (conn_id (via (indexer s))))
       (emit (IndexerFlush (conn_id (via (indexer s))))
          (emit (Log Debug ''Shutting down indexer'' []) w))"

definition sendToES_with ::
  "connector \<Rightarrow> elasticConfig \<Rightarrow> payload list \<Rightarrow> bool list \<Rightarrow> world \<Rightarrow> status \<times> world" where
  "sendToES_with connect config batch results w =
     (case sendToES_begin connect config batch w of
        (ProcessExit, w1) \<Rightarrow> (Exited, w1)
      | (Return None, w1) \<Rightarrow> (Done, w1)
      | (Return (Some s), w1) \<Rightarrow>
          (case range_batch connect config batch results s w1 of
             (Done, _, s', w2) \<Rightarrow> (Done, sendToES_deferred s' w2)
           | (st, _, s', w2) \<Rightarrow> (st, w2)))"

definition sendToES :: "elasticConfig \<Rightarrow> payload list \<Rightarrow> bool list \<Rightarrow> world \<Rightarrow> status \<times> world" where
  "sendToES config batch results w = sendToES_with connectToES config batch results w"

section \<open>Batch aggregator (elasticsearch.go)\<close>

datatype trigger = BySize | ByTimeout

text \<open>The case that the \<open>select\<close> of one iteration takes.\<close>

datatype select_case = Incoming payload | TimerFired

text \<open>
  One iteration of the loop of \<open>batchAndSend\<close> on the open batch: the new open batch, and
  the batch handed to \<open>go sendToES\<close> if there is one, with what triggered it.
\<close>

fun batchAndSend_select ::
  "elasticConfig \<Rightarrow> payload list \<Rightarrow> select_case \<Rightarrow> payload list \<times> (trigger \<times> payload list) option" where
  "batchAndSend_select config batch (Incoming doc) =
     (let batch = batch @ [doc]
      in if int (length batch) \<ge> BatchSize config then ([], Some (BySize, batch))
         else (batch, None))"
| "batchAndSend_select config batch TimerFired = ([], Some (ByTimeout, batch))"

text \<open>
  The loop over the cases its iterations take: the open batch at the end, and the batches
  handed over, in order.
\<close>

fun batchAndSend_loop ::
  "elasticConfig \<Rightarrow> payload list \<Rightarrow> select_case list \<Rightarrow> payload list \<times> (trigger \<times> payload list) list" where
  "batchAndSend_loop config batch [] = (batch, [])"
| "batchAndSend_loop config batch (c # cs) =
     (case batchAndSend_select config batch c of
        (batch', d) \<Rightarrow>
          (case batchAndSend_loop config batch' cs of
             (b, ds) \<Rightarrow> (b, (case d of None \<Rightarrow> [] | Some x \<Rightarrow> [x]) @ ds)))"

text \<open>
  \<open>batchAndSend\<close>: \<open>make([]*payload, 0, config.BatchSize)\<close> panics on a negative capacity,
  then the loop starts on the empty batch.
\<close>

definition batchAndSend ::
  "elasticConfig \<Rightarrow> select_case list \<Rightarrow> error + payload list \<times> (trigger \<times> payload list) list" where
  "batchAndSend config cs =
     (if BatchSize config < 0 then Inl ''makeslice: cap out of range''
      else Inr (batchAndSend_loop config [] cs))"





section \<open>The reconnection the specification describes\<close>


section \<open>The pipeline\<close>

text \<open>
  Modelled from the spec: the layer around the topic consumer that counts a received message
  (the callback \<open>processMsg\<close> that \<open>run\<close> subscribes with is not among the sources, and no
  function of the two source files writes \<open>natsConsumed\<close>). The specification: the
  consumed counter is incremented once per received message, by the caller layer around
  the consumer.
\<close>

definition count_consumed :: "world \<Rightarrow> world" where
  "count_consumed w = w\<lparr>stats := (stats w)\<lparr>natsConsumed := natsConsumed (stats w) + 1\<rparr>\<rparr>"

text \<open>A running \<open>sendToES\<close>: the documents of its batch not yet sent, and its variables.\<close>

record dispatcher =
  remaining :: "payload list"
  vars :: session

text \<open>
  The state of the process: the world, the goroutines that the consumers have started and
  that have not run yet (each by the \<open>m\<close> it closes over), the open batch of
  \<open>batchAndSend\<close>, the running dispatchers, and whether the process has ended.
\<close>

record system =
  sys_world :: world
  goroutines :: "Msg option list"
  open_batch :: "payload list"
  dispatchers :: "dispatcher list"
  halted :: bool

text \<open>
  The steps of the process, one per event: a message is delivered (counted, then returned by
  \<open>NextMsg\<close>); \<open>NextMsg\<close> times out; a started goroutine runs at some time and its document
  is taken by the aggregator; the aggregator's timer fires; a dispatcher makes its next
  \<open>indexer.Index\<close> call, with that result.
\<close>

datatype event =
    Deliver Msg
  | ReceiveTimeout
  | RunGoroutine nat string
  | TimerFires
  | Submit nat bool

definition consumer_step :: "Msg option \<times> error option \<Rightarrow> system \<Rightarrow> system" where
  "consumer_step r s =
     (case consumeForever [r] (goroutines s) of
        Receiving g \<Rightarrow> s\<lparr>goroutines := g\<rparr>
      | Returned e g \<Rightarrow> s\<lparr>goroutines := g\<rparr>)"

definition go_sendToES :: "elasticConfig \<Rightarrow> (trigger \<times> payload list) option \<Rightarrow> system \<Rightarrow> system" where
  "go_sendToES config d s =
     (case d of
        None \<Rightarrow> s
      | Some (t, batch) \<Rightarrow>
          (case sendToES_begin connectToES config batch (sys_world s) of
             (ProcessExit, w) \<Rightarrow> s\<lparr>sys_world := w, halted := True\<rparr>
           | (Return None, w) \<Rightarrow> s\<lparr>sys_world := w\<rparr>
           | (Return (Some v), w) \<Rightarrow>
               s\<lparr>sys_world := w, dispatchers := dispatchers s @ [\<lparr>remaining = batch, vars = v\<rparr>]\<rparr>))"

definition aggregator_step :: "elasticConfig \<Rightarrow> select_case \<Rightarrow> system \<Rightarrow> system" where
  "aggregator_step config c s =
     (case batchAndSend_select config (open_batch s) c of
        (batch', d) \<Rightarrow> go_sendToES config d (s\<lparr>open_batch := batch'\<rparr>))"

definition submit_step :: "elasticConfig \<Rightarrow> nat \<Rightarrow> bool \<Rightarrow> system \<Rightarrow> system" where
  "submit_step config j ok s =
     (if j < length (dispatchers s) then
        (let d = dispatchers s ! j
         in case remaining d of
              [] \<Rightarrow> s
            | doc # rest \<Rightarrow>
                (case resend_loop connectToES config doc [ok] (vars d) (sys_world s) of
                   (Done, _, v, w) \<Rightarrow>
                     (if rest = []
                      then s\<lparr>sys_world := sendToES_deferred v w,
                             dispatchers := take j (dispatchers s) @ drop (Suc j) (dispatchers s)\<rparr>
                      else s\<lparr>sys_world := w,
                             dispatchers := take j (dispatchers s) @ \<lparr>remaining = rest, vars = v\<rparr>
                                              # drop (Suc j) (dispatchers s)\<rparr>)
                 | (Pending, _, v, w) \<Rightarrow>
                     s\<lparr>sys_world := w,
                       dispatchers := take j (dispatchers s) @ \<lparr>remaining = doc # rest, vars = v\<rparr>
                                        # drop (Suc j) (dispatchers s)\<rparr>
                 | (Exited, _, v, w) \<Rightarrow> s\<lparr>sys_world := w, halted := True\<rparr>))
      else s)"

definition pipeline_step :: "decoder \<Rightarrow> elasticConfig \<Rightarrow> system \<Rightarrow> event \<Rightarrow> system" where
  "pipeline_step parse config s ev =
     (if halted s then s
      else
        (case ev of
           Deliver m \<Rightarrow> consumer_step (Some m, None) (s\<lparr>sys_world := count_consumed (sys_world s)\<rparr>)
         | ReceiveTimeout \<Rightarrow> consumer_step (None, Some ErrTimeout) s
         | RunGoroutine i now \<Rightarrow>
             (if i < length (goroutines s) then
                (case consume_goroutine parse now (goroutines s ! i) of
                   Inl panic \<Rightarrow> s\<lparr>halted := True\<rparr>
                 | Inr doc \<Rightarrow>
                     aggregator_step config (Incoming doc)
                       (s\<lparr>goroutines := take i (goroutines s) @ drop (Suc i) (goroutines s)\<rparr>))
              else s)
         | TimerFires \<Rightarrow> aggregator_step config TimerFired s
         | Submit j ok \<Rightarrow> submit_step config j ok s))"

definition start :: system where
  "start =
     \<lparr>sys_world = \<lparr>stats = \<lparr>natsConsumed = 0, esSent = 0\<rparr>, conns = 0, effects = []\<rparr>,
      goroutines = [], open_batch = [], dispatchers = [], halted = False\<rparr>"

definition pipeline :: "decoder \<Rightarrow> elasticConfig \<Rightarrow> event list \<Rightarrow> system" where
  "pipeline parse config evs = foldl (pipeline_step parse config) start evs"




section \<open>Concrete inputs\<close>

definition example_config :: elasticConfig where
  "example_config =
     \<lparr>Index = ''logs'', Hosts = [''localhost''], Port = 9200, Trace = False,
      ReconnectAttempts = 3, RetrySeconds = 5, BatchSize = 5, BatchTimeoutSec = 10\<rparr>"

definition world0 :: world where
  "world0 = \<lparr>stats = \<lparr>natsConsumed = 0, esSent = 0\<rparr>, conns = 0, effects = []\<rparr>"

definition doc_a :: payload where
  "doc_a = newPayload ''a'' ''events'' ''2016-03-01T10:00:00Z''"


section \<open>Properties of the topic consumer\<close>

text \<open>
  Claim C1. The claim: when \<open>NextMsg\<close> times out, the loop goes on to the next receive and
  nothing is processed. The code: the \<open>if\<close> that tests for \<open>nats.ErrTimeout\<close> returns on
  every other error and has no \<open>continue\<close>, so on a timeout the iteration goes on and starts
  its goroutine with the nil \<open>m\<close>; the goroutine reads \<open>m.Data\<close> and panics, which ends
  the process.
\<close>

theorem consumeForever_timeout_nil_dereference:
  "consumeForever ((None, Some ErrTimeout) # rest) started = consumeForever rest (started @ [None])
   \<and> consume_goroutine parse now None = Inl nil_dereference
   \<and> halted (pipeline parse config [ReceiveTimeout, RunGoroutine 0 now])"
  by (simp add: consume_goroutine_def pipeline_def pipeline_step_def consumer_step_def start_def)

section \<open>Properties of the document builder\<close>

lemma foldl_upd_map_of:
  "foldl (\<lambda>m (k, v). m(k \<mapsto> v)) p kvs = p ++ map_of (rev kvs)"
proof (induction kvs arbitrary: p)
  case Nil
  show ?case by simp
next
  case (Cons kv kvs)
  obtain k v where kv: "kv = (k, v)" by (cases kv)
  have "foldl (\<lambda>m (k, v). m(k \<mapsto> v)) p (kv # kvs)
      = foldl (\<lambda>m (k, v). m(k \<mapsto> v)) (p(k \<mapsto> v)) kvs"
    by (simp add: kv)
  also have "\<dots> = (p(k \<mapsto> v)) ++ map_of (rev kvs)"
    by (rule Cons.IH)
  also have "\<dots> = p ++ ([k \<mapsto> v] ++ map_of (rev kvs))"
    by (rule ext) (simp add: map_add_def split: option.splits)
  also have "\<dots> = p ++ map_of (rev (kv # kvs))"
    by (simp add: kv)
  finally show ?case .
qed





text \<open>
  Claim C7. When the bytes decode as an object, the document is the three reserved entries
  overridden by the members of the object, the last member of a name winning: every decoded
  field is in the document with its decoded value, also one named as a reserved key, and
  every other key keeps what \<open>newPayload\<close> gave it.
\<close>

theorem decoded_fields_merged:
  "parse (Data m) = Some (JObject kvs) \<Longrightarrow>
     document_of parse now m = newPayload (Data m) (Subject m) now ++ map_of (rev kvs)
     \<and> (\<forall>k v. map_of (rev kvs) k = Some v \<longrightarrow> document_of parse now m k = Some v)
     \<and> (\<forall>k. map_of (rev kvs) k = None \<longrightarrow>
           document_of parse now m k = newPayload (Data m) (Subject m) now k)"
  by (simp add: document_of_def json_Unmarshal_def foldl_upd_map_of map_add_def)

text \<open>
  The example of the claim, and the same body with the key that the code reserves: the
  first document has \<open>raw_message = "x"\<close>, the second has \<open>@raw_msg = "x"\<close>.
\<close>

theorem decoded_fields_merged_witness:
  \<open>document_of scenario_decoder ''2016-03-01T10:00:00Z''
      \<lparr>Subject = ''events'', Data = ''{"user":"a","raw_message":"x"}''\<rparr> ''raw_message''
     = Some (JString ''x'')
   \<and> document_of scenario_decoder ''2016-03-01T10:00:00Z''
      \<lparr>Subject = ''events'', Data = ''{"user":"a","raw_message":"x"}''\<rparr> ''user''
     = Some (JString ''a'')
   \<and> document_of scenario_decoder ''2016-03-01T10:00:00Z''
      \<lparr>Subject = ''events'', Data = ''{"user":"a","@raw_msg":"x"}''\<rparr> rawMsgKey
     = Some (JString ''x'')
   \<and> document_of scenario_decoder ''2016-03-01T10:00:00Z''
      \<lparr>Subject = ''events'', Data = ''{"user":"a","@raw_msg":"x"}''\<rparr> sourceKey
     = Some (JString ''events'')\<close>
proof -
  have h5: \<open>scenario_decoder (Data \<lparr>Subject = ''events'', Data = ''{"user":"a","raw_message":"x"}''\<rparr>)
      = Some (JObject [(''user'', JString ''a''), (''raw_message'', JString ''x'')])\<close>
    by (simp add: scenario_decoder_def)
  have h: \<open>scenario_decoder (Data \<lparr>Subject = ''events'', Data = ''{"user":"a","@raw_msg":"x"}''\<rparr>)
      = Some (JObject [(''user'', JString ''a''), (''@raw_msg'', JString ''x'')])\<close>
    by (simp add: scenario_decoder_def)
  from decoded_fields_merged [where parse = scenario_decoder and now = "''2016-03-01T10:00:00Z''", OF h5]
    decoded_fields_merged [where parse = scenario_decoder and now = "''2016-03-01T10:00:00Z''", OF h]
  show ?thesis
    by (simp add: newPayload_def rawMsgKey_def sourceKey_def timestampKey_def)
qed

text \<open>
  In the example of the claim the field \<open>raw_message\<close> stands beside the reserved
  \<open>@raw_msg\<close>, which still holds the raw body.
\<close>

lemma scenario5_raw_body_kept:
  \<open>document_of scenario_decoder ''2016-03-01T10:00:00Z''
      \<lparr>Subject = ''events'', Data = ''{"user":"a","raw_message":"x"}''\<rparr> rawMsgKey
     = Some (JString ''{"user":"a","raw_message":"x"}'')\<close>
  by (simp add: document_of_def json_Unmarshal_def scenario_decoder_def newPayload_def
      rawMsgKey_def sourceKey_def timestampKey_def)

section \<open>Properties of reconnection\<close>







text \<open>
  Claim C10. \<open>connectToES\<close> returns a nil error for every configuration; all it does is
  log a line and make a connection object. So \<open>sendToES\<close> never takes its branch
  "Failed to connect to elasticsearch", and \<open>reconnect\<close> with \<open>ReconnectAttempts\<close> at
  least 1 returns the connection of its first attempt.
\<close>

theorem connectToES_returns_nil_error:
  "snd (fst (connectToES config w)) = None
   \<and> effects (snd (connectToES config w)) =
       effects w @ [Log Info ''Connecting to elastic search'' [], NewConn (conns w)]
   \<and> fst (sendToES_begin connectToES config batch w) \<noteq> ProcessExit
   \<and> (1 \<le> ReconnectAttempts config \<longrightarrow>
        (\<exists>c w'. reconnect config w = (Return c, w') \<and> conn_id c = conns w \<and> conns w' = Suc (conns w)))"
  by (simp add: reconnect_def reconnect_with_def reconnect_loop.simps[of _ _ 0] sendToES_begin_def
      connectToES_def elastigo_NewConn_def emit_def Let_def)

theorem connectToES_returns_nil_error_witness:
  "\<exists>c w'. reconnect example_config world0 = (Return c, w') \<and> conn_id c = conns world0
     \<and> conns w' = Suc (conns world0)"
proof -
  have "1 \<le> ReconnectAttempts example_config" by (simp add: example_config_def)
  with connectToES_returns_nil_error [of example_config world0] show ?thesis by blast
qed

section \<open>Properties of the bulk dispatcher\<close>

text \<open>
  Claim C9. \<open>sendToES\<close> on an empty batch returns at once and leaves the world as it
  was: no connection object is made, no indexer is started, no counter changes, nothing is
  logged; and the aggregator's hand-over of an empty batch leaves the whole process state
  as it was.
\<close>

theorem sendToES_empty_batch_noop:
  "sendToES config [] results w = (Done, w) \<and> go_sendToES config (Some (t, [])) s = s"
  by (simp add: sendToES_def sendToES_with_def sendToES_begin_def go_sendToES_def)

text \<open>
  Claim C5. The claim: after a failed submit and a successful reconnect, the same document
  is submitted again through the new connection. The code: on a batch of one document whose
  first submit fails and whose second succeeds, the same document is submitted twice and
  \<open>esSent\<close> goes up by one, but both \<open>Index\<close> calls go through the indexer made from
  connection 0. The connection 1 that \<open>reconnect\<close> returned is stored in \<open>client\<close> and
  never used.
\<close>

theorem resend_through_old_connection:
  "sendToES example_config [doc_a] [False, True] world0 =
     (Done,
      \<lparr>stats = \<lparr>natsConsumed = 0, esSent = 1\<rparr>, conns = 2,
       effects =
        [Log Info ''Connecting to elastic search'' [],
         NewConn 0,
         Log Debug ''Connected to elasticseach'' [],
         NewBulkIndexer 0,
         Log Debug ''Started indexer'' [],
         IndexerStart 0,
         Log Debug ''Sending to ES: %s'' [],
         IndexCall 0 ''logs'' doc_a,
         Log Warn ''Error sending data to elasticsearch -- retrying'' [],
         Log Debug ''reconnecting attempt %d/%d'' [1, 3],
         Log Info ''Connecting to elastic search'' [],
         NewConn 1,
         Log Info ''Reconnected after %d attempts'' [1],
         Log Debug ''Sending to ES: %s'' [],
         IndexCall 0 ''logs'' doc_a,
         Log Debug ''Sent'' [],
         Log Debug ''Shutting down indexer'' [],
         IndexerFlush 0,
         IndexerStop 0]\<rparr>)
   \<and> (case sendToES_begin connectToES example_config [doc_a] world0 of
         (Return (Some s), w) \<Rightarrow>
           (case range_batch connectToES example_config [doc_a] [False, True] s w of
              (st, rs, s', w') \<Rightarrow>
                st = Done \<and> conn_id (client s') = 1 \<and> conn_id (via (indexer s')) = 0)
       | _ \<Rightarrow> False)"
  by (simp add: sendToES_def sendToES_with_def sendToES_begin_def sendToES_deferred_def
      reconnect_with_def reconnect_loop.simps[of _ _ 0] incr_esSent_def
      connectToES_def elastigo_NewConn_def emit_def example_config_def world0_def Let_def)

section \<open>Properties of the batch aggregator\<close>

lemma batchAndSend_loop_sizes:
  "1 \<le> BatchSize config \<Longrightarrow> int (length batch) < BatchSize config \<Longrightarrow>
   batchAndSend_loop config batch cs = (b, ds) \<Longrightarrow>
     int (length b) < BatchSize config
     \<and> (\<forall>(t, x) \<in> set ds.
           (t = BySize \<longrightarrow> 1 \<le> length x \<and> int (length x) \<le> BatchSize config)
           \<and> (t = ByTimeout \<longrightarrow> int (length x) < BatchSize config))"
proof (induction cs arbitrary: batch b ds)
  case Nil
  then show ?case by simp
next
  case (Cons c cs)
  obtain batch' d where sel: "batchAndSend_select config batch c = (batch', d)"
    by (cases "batchAndSend_select config batch c")
  obtain b' ds' where rest: "batchAndSend_loop config batch' cs = (b', ds')"
    by (cases "batchAndSend_loop config batch' cs")
  from Cons.prems(3) sel rest
  have b: "b = b'" and ds: "ds = (case d of None \<Rightarrow> [] | Some x \<Rightarrow> [x]) @ ds'"
    by simp_all
  have step: "int (length batch') < BatchSize config
      \<and> (\<forall>t x. d = Some (t, x) \<longrightarrow>
            (t = BySize \<longrightarrow> 1 \<le> length x \<and> int (length x) \<le> BatchSize config)
            \<and> (t = ByTimeout \<longrightarrow> int (length x) < BatchSize config))"
    using sel Cons.prems(1,2) by (cases c) (auto simp add: Let_def split: if_splits)
  from Cons.IH [OF Cons.prems(1) _ rest] step
  have "int (length b') < BatchSize config
     \<and> (\<forall>(t, x) \<in> set ds'.
           (t = BySize \<longrightarrow> 1 \<le> length x \<and> int (length x) \<le> BatchSize config)
           \<and> (t = ByTimeout \<longrightarrow> int (length x) < BatchSize config))"
    by simp
  with step b ds show ?case by (cases d) auto
qed

lemma batchAndSend_select_flush:
  "batchAndSend_select config batch c = (batch', Some d) \<Longrightarrow> batch' = []"
  by (cases c) (auto simp add: Let_def split: if_splits)

text \<open>
  Claim C8, as stated, fails for \<open>BatchSize = 0\<close>: every document is handed over alone,
  a batch of one where the bound is zero, and the timer hands over an empty batch, whose
  length is not below zero.
\<close>

theorem batch_sizes_zero_batchSize:
  "batchAndSend (example_config\<lparr>BatchSize := 0\<rparr>) [Incoming doc_a, TimerFired]
     = Inr ([], [(BySize, [doc_a]), (ByTimeout, [])])
   \<and> \<not> int (length [doc_a]) \<le> BatchSize (example_config\<lparr>BatchSize := 0\<rparr>)
   \<and> \<not> int (length ([] :: payload list)) < BatchSize (example_config\<lparr>BatchSize := 0\<rparr>)"
  by (simp add: batchAndSend_def example_config_def)

text \<open>
  Claim C8, amended. With \<open>BatchSize\<close> at least 1: every batch handed over by the size
  threshold has between 1 and \<open>BatchSize\<close> documents, every batch handed over by the timer
  has fewer than \<open>BatchSize\<close>, and after either the open batch is empty.
\<close>

theorem dispatched_batch_sizes:
  "1 \<le> BatchSize config \<Longrightarrow> batchAndSend config cs = Inr (b, ds) \<Longrightarrow>
     (\<forall>(t, batch) \<in> set ds.
        (t = BySize \<longrightarrow> 1 \<le> length batch \<and> int (length batch) \<le> BatchSize config)
        \<and> (t = ByTimeout \<longrightarrow> 0 \<le> length batch \<and> int (length batch) < BatchSize config))
     \<and> (\<forall>batch c batch' d. batchAndSend_select config batch c = (batch', Some d) \<longrightarrow> batch' = [])"
proof -
  assume size: "1 \<le> BatchSize config" and run: "batchAndSend config cs = Inr (b, ds)"
  from run size have "batchAndSend_loop config [] cs = (b, ds)"
    by (simp add: batchAndSend_def split: if_splits)
  from batchAndSend_loop_sizes [OF size _ this] size
  show ?thesis by (auto dest: batchAndSend_select_flush)
qed

theorem dispatched_batch_sizes_witness:
  "1 \<le> BatchSize (example_config\<lparr>BatchSize := 2\<rparr>)
   \<and> batchAndSend (example_config\<lparr>BatchSize := 2\<rparr>) [Incoming doc_a, Incoming doc_a, Incoming doc_a, TimerFired]
       = Inr ([], [(BySize, [doc_a, doc_a]), (ByTimeout, [doc_a])])
   \<and> int (length [doc_a, doc_a]) \<le> BatchSize (example_config\<lparr>BatchSize := 2\<rparr>)
   \<and> int (length [doc_a]) < BatchSize (example_config\<lparr>BatchSize := 2\<rparr>)"
proof -
  have size: "1 \<le> BatchSize (example_config\<lparr>BatchSize := 2\<rparr>)" by simp
  have run: "batchAndSend (example_config\<lparr>BatchSize := 2\<rparr>) [Incoming doc_a, Incoming doc_a, Incoming doc_a, TimerFired]
       = Inr ([], [(BySize, [doc_a, doc_a]), (ByTimeout, [doc_a])])"
    by (simp add: batchAndSend_def)
  from dispatched_batch_sizes [OF size run] size run show ?thesis by simp
qed







section \<open>Properties of the counters\<close>
























end
